theory Spec2Isabelle
  imports Complex_Main
begin

section \<open>Zoomy: screen alignment and the start/end zoom animation\<close>

text \<open>
  The program (\<^verbatim>\<open>src/zoomy/zoomy.cpp\<close>) shows an image full-screen, lets the user pick
  a start box and an end box with Q/W/E/R + left click, and zooms from the one to the
  other while the space bar is held.

  Numbers. The source computes in C \<^verbatim>\<open>float\<close>. In the main model a \<^verbatim>\<open>float\<close> is a
  \<^typ>\<open>real\<close>: every operation is exact, there is no rounding, no overflow and no
  underflow. This is the reading under which the program's geometry is usually stated
  (``within float tolerance''), and it is faithful only as long as no divisor is zero;
  HOL's \<open>x / 0 = 0\<close> is not what the machine does. The theorems on the main model
  therefore carry the hypotheses that keep every divisor away from zero, and the
  behaviour at a zero divisor is studied on a second model of the same function
  (section ``Special values'') in which a \<^verbatim>\<open>float\<close> is a finite real, an infinity or
  a NaN.
\<close>

subsection \<open>PutScreenOverCoordinates\<close>

text \<open>
  \<^verbatim>\<open>float PutScreenOverCoordinates(bool coords_in_dimensions, float *top, float *left,
  float *bottom, float *right, float screen_width, float screen_height)\<close>.
  The four pointers are both inputs and outputs; every call site passes the addresses of
  four distinct variables, so the function is modelled as returning the four new values
  together with the scaling factor.
\<close>

record fit =
  fit_scaling :: real
  fit_top :: real
  fit_left :: real
  fit_bottom :: real
  fit_right :: real

definition PutScreenOverCoordinates ::
  "bool \<Rightarrow> real \<Rightarrow> real \<Rightarrow> real \<Rightarrow> real \<Rightarrow> real \<Rightarrow> real \<Rightarrow> fit" where
  "PutScreenOverCoordinates coords_in_dimensions top' left bottom right
       screen_width screen_height =
     (let screen_aspect = screen_width / screen_height;
          width = right - left;
          height = bottom - top';
          aspect = width / height
      in if (coords_in_dimensions \<and> aspect > screen_aspect)
            \<or> (\<not> coords_in_dimensions \<and> aspect < screen_aspect)
         then
           (let offset = (width / screen_aspect - height) / 2
            in \<lparr>fit_scaling = width / screen_width,
                fit_top = top' - offset, fit_left = left,
                fit_bottom = bottom + offset, fit_right = right\<rparr>)
         else
           (let offset = (height * screen_aspect - width) / 2
            in \<lparr>fit_scaling = height / screen_height,
                fit_top = top', fit_left = left - offset,
                fit_bottom = bottom, fit_right = right + offset\<rparr>))"

subsection \<open>The fitter as the specification words it\<close>

text \<open>
  The specification calls the function \<open>Fit(mode, rect, viewportWidth, viewportHeight)\<close>
  with \<open>mode \<in> {Contain, Cover}\<close>, \<open>Cover\<close> being \<^verbatim>\<open>coords_in_dimensions = true\<close>.
  \<open>Fit_spec\<close> is written from the specification's sentence, not from the source, and is
  compared with the source's function below.
\<close>

datatype fit_mode = Contain | Cover

definition coords_in_dimensions_of :: "fit_mode \<Rightarrow> bool" where
  "coords_in_dimensions_of mode = (mode = Cover)"

definition Fit_spec ::
  "fit_mode \<Rightarrow> real \<Rightarrow> real \<Rightarrow> real \<Rightarrow> real \<Rightarrow> real \<Rightarrow> real \<Rightarrow> fit" where
  "Fit_spec mode top' left bottom right viewportWidth viewportHeight =
     (let viewportAspect = viewportWidth / viewportHeight;
          rectAspect = (right - left) / (bottom - top')
      in if (mode = Cover \<and> rectAspect > viewportAspect)
            \<or> (mode = Contain \<and> rectAspect < viewportAspect)
         then \<lparr>fit_scaling = (right - left) / viewportWidth,
               fit_top = top' - ((right - left) / viewportAspect - (bottom - top')) / 2,
               fit_left = left,
               fit_bottom = bottom + ((right - left) / viewportAspect - (bottom - top')) / 2,
               fit_right = right\<rparr>
         else \<lparr>fit_scaling = (bottom - top') / viewportHeight,
               fit_top = top',
               fit_left = left - ((bottom - top') * viewportAspect - (right - left)) / 2,
               fit_bottom = bottom,
               fit_right = right + ((bottom - top') * viewportAspect - (right - left)) / 2\<rparr>)"

subsection \<open>Special values: the fitter where a divisor may be zero\<close>














subsection \<open>The variables of WinMain\<close>

text \<open>
  The locals of \<^verbatim>\<open>WinMain\<close> that the main loop reads and writes. The four dimensions
  are set once from the display mode and the image file and never written again.
  \<^verbatim>\<open>top\<close> is \<open>top'\<close> here, the name \<open>top\<close> being taken.
\<close>

record vars =
  screen_width :: real
  screen_height :: real
  image_width :: real
  image_height :: real
  start_x1 :: real
  start_y1 :: real
  start_x2 :: real
  start_y2 :: real
  end_x1 :: real
  end_y1 :: real
  end_x2 :: real
  end_y2 :: real
  dx1 :: real
  dx2 :: real
  dy1 :: real
  dy2 :: real
  left :: real
  top' :: real
  right :: real
  bottom :: real
  first_loop :: bool
  initialized :: bool

text \<open>\<^verbatim>\<open>float time = 30.0f;\<close> is never written after its initialisation.\<close>

definition time :: real where
  "time = 30"

text \<open>
  The state before the first pass of the loop, from \<^verbatim>\<open>d3ddm.Width\<close>, \<^verbatim>\<open>d3ddm.Height\<close>,
  \<^verbatim>\<open>imageInfo.Width\<close> and \<^verbatim>\<open>imageInfo.Height\<close> (all \<^verbatim>\<open>UINT\<close>).
\<close>

definition init :: "nat \<Rightarrow> nat \<Rightarrow> nat \<Rightarrow> nat \<Rightarrow> vars" where
  "init d3ddm_Width d3ddm_Height imageInfo_Width imageInfo_Height =
     \<lparr>screen_width = real d3ddm_Width, screen_height = real d3ddm_Height,
      image_width = real imageInfo_Width, image_height = real imageInfo_Height,
      start_x1 = 0, start_y1 = 0,
      start_x2 = real imageInfo_Width, start_y2 = real imageInfo_Height,
      end_x1 = 0, end_y1 = 0,
      end_x2 = real d3ddm_Width, end_y2 = real d3ddm_Height,
      dx1 = (0 - 0) / time,
      dx2 = (real d3ddm_Width - real imageInfo_Width) / time,
      dy1 = (0 - 0) / time,
      dy2 = (real d3ddm_Height - real imageInfo_Height) / time,
      left = 0, top' = 0, right = real imageInfo_Width, bottom = real imageInfo_Height,
      first_loop = True, initialized = False\<rparr>"

subsection \<open>What one pass of the loop reads\<close>

text \<open>
  The key states (\<^verbatim>\<open>GetKeyState(k) & 0x80\<close>), the cursor position (\<^verbatim>\<open>POINT\<close>, two
  \<^verbatim>\<open>LONG\<close>s) and the elapsed time that \<^verbatim>\<open>HandleMessagePump\<close> stored.
\<close>

record input =
  key_SPACE :: bool
  key_1 :: bool
  key_2 :: bool
  key_3 :: bool
  key_4 :: bool
  key_5 :: bool
  key_6 :: bool
  key_7 :: bool
  key_8 :: bool
  key_9 :: bool
  key_0 :: bool
  key_Q :: bool
  key_W :: bool
  key_E :: bool
  key_R :: bool
  key_LBUTTON :: bool
  pt_x :: int
  pt_y :: int
  fElapsedTime :: real

subsection \<open>The loop body\<close>

text \<open>The body of \<^verbatim>\<open>if (!initialized) { ... }\<close>, lines 294 to 306.\<close>

definition arm :: "vars \<Rightarrow> vars" where
  "arm s =
     (let fs = PutScreenOverCoordinates False (start_y1 s) (start_x1 s) (start_y2 s)
                 (start_x2 s) (screen_width s) (screen_height s);
          fe = PutScreenOverCoordinates False (end_y1 s) (end_x1 s) (end_y2 s)
                 (end_x2 s) (screen_width s) (screen_height s)
      in s\<lparr>initialized := True,
           start_y1 := fit_top fs, start_x1 := fit_left fs,
           start_y2 := fit_bottom fs, start_x2 := fit_right fs,
           end_y1 := fit_top fe, end_x1 := fit_left fe,
           end_y2 := fit_bottom fe, end_x2 := fit_right fe,
           dx1 := (fit_left fe - fit_left fs) / time,
           dx2 := (fit_right fe - fit_right fs) / time,
           dy1 := (fit_top fe - fit_top fs) / time,
           dy2 := (fit_bottom fe - fit_bottom fs) / time,
           left := fit_left fs, top' := fit_top fs,
           right := fit_right fs, bottom := fit_bottom fs\<rparr>)"

text \<open>The chain of speed keys, lines 309 to 318: the value of \<^verbatim>\<open>fElapsedTime\<close> after it.\<close>

definition scaled_time :: "input \<Rightarrow> real" where
  "scaled_time i =
     (if key_1 i then fElapsedTime i * 0.15
      else if key_2 i then fElapsedTime i * 0.25
      else if key_3 i then fElapsedTime i * 0.5
      else if key_4 i then fElapsedTime i * 0.6
      else if key_5 i then fElapsedTime i * 0.8
      else if key_6 i then fElapsedTime i * 1.2
      else if key_7 i then fElapsedTime i * 1.5
      else if key_8 i then fElapsedTime i * 1.8
      else if key_9 i then fElapsedTime i * 2.0
      else if key_0 i then fElapsedTime i * 2.5
      else fElapsedTime i)"

text \<open>\<^verbatim>\<open>if (GetKeyState(VK_SPACE) & 0x80) { ... }\<close>, lines 290 to 325.\<close>

definition zoom :: "input \<Rightarrow> vars \<Rightarrow> vars" where
  "zoom i s =
     (if key_SPACE i then
        (let s1 = (if \<not> initialized s then arm s else s)
         in s1\<lparr>left := left s1 + dx1 s1 * scaled_time i,
               top' := top' s1 + dy1 s1 * scaled_time i,
               right := right s1 + dx2 s1 * scaled_time i,
               bottom := bottom s1 + dy2 s1 * scaled_time i\<rparr>)
      else s)"

text \<open>\<^verbatim>\<open>if (first_loop||sp1||sp2||ep1||ep2) { ... }\<close>, lines 348 to 393.\<close>

definition pick :: "input \<Rightarrow> vars \<Rightarrow> vars" where
  "pick i s =
     (if first_loop s \<or> key_Q i \<or> key_W i \<or> key_E i \<or> key_R i then
        (let f = PutScreenOverCoordinates True 0 0 (image_height s) (image_width s)
                   (screen_width s) (screen_height s);
             s1 = s\<lparr>first_loop := False, initialized := False,
                    top' := fit_top f, left := fit_left f,
                    right := fit_right f, bottom := fit_bottom f\<rparr>
         in if key_LBUTTON i then
              (let s2 = (if key_Q i
                         then s1\<lparr>start_x1 := real_of_int (pt_x i) * fit_scaling f + left s1,
                                 start_y1 := real_of_int (pt_y i) * fit_scaling f + top' s1\<rparr>
                         else s1);
                   s3 = (if key_W i
                         then s2\<lparr>start_x2 := real_of_int (pt_x i) * fit_scaling f + left s2,
                                 start_y2 := real_of_int (pt_y i) * fit_scaling f + top' s2\<rparr>
                         else s2);
                   s4 = (if key_E i
                         then s3\<lparr>end_x1 := real_of_int (pt_x i) * fit_scaling f + left s3,
                                 end_y1 := real_of_int (pt_y i) * fit_scaling f + top' s3\<rparr>
                         else s3)
               in if key_R i
                  then s4\<lparr>end_x2 := real_of_int (pt_x i) * fit_scaling f + left s4,
                          end_y2 := real_of_int (pt_y i) * fit_scaling f + top' s4\<rparr>
                  else s4)
            else s1)
      else s)"

text \<open>
  One pass of the loop in which ESC is not down and \<^verbatim>\<open>BeginScene\<close> succeeds (otherwise
  the pass writes none of the variables): the zoom block, the drawing (which reads
  \<^verbatim>\<open>left\<close>, \<^verbatim>\<open>top\<close>, \<^verbatim>\<open>right\<close>, \<^verbatim>\<open>bottom\<close> and writes nothing), then the
  coordinate block. \<open>run\<close> is a sequence of passes.
\<close>

definition frame :: "input \<Rightarrow> vars \<Rightarrow> vars" where
  "frame i s = pick i (zoom i s)"

primrec run :: "input list \<Rightarrow> vars \<Rightarrow> vars" where
  "run [] s = s"
| "run (i # is) s = run is (frame i s)"

text \<open>Shorthands for the statements below.\<close>

definition corner_key :: "input \<Rightarrow> bool" where
  "corner_key i = (key_Q i \<or> key_W i \<or> key_E i \<or> key_R i)"

definition start_box :: "vars \<Rightarrow> real \<times> real \<times> real \<times> real" where
  "start_box s = (start_y1 s, start_x1 s, start_y2 s, start_x2 s)"

definition end_box :: "vars \<Rightarrow> real \<times> real \<times> real \<times> real" where
  "end_box s = (end_y1 s, end_x1 s, end_y2 s, end_x2 s)"

definition current :: "vars \<Rightarrow> real \<times> real \<times> real \<times> real" where
  "current s = (top' s, left s, bottom s, right s)"

definition rates :: "vars \<Rightarrow> real \<times> real \<times> real \<times> real" where
  "rates s = (dy1 s, dx1 s, dy2 s, dx2 s)"

definition edges :: "fit \<Rightarrow> real \<times> real \<times> real \<times> real" where
  "edges f = (fit_top f, fit_left f, fit_bottom f, fit_right f)"

definition contain :: "vars \<Rightarrow> real \<times> real \<times> real \<times> real \<Rightarrow> fit" where
  "contain s box =
     (case box of (t, l, b, r) \<Rightarrow>
        PutScreenOverCoordinates False t l b r (screen_width s) (screen_height s))"

definition positive_box :: "real \<times> real \<times> real \<times> real \<Rightarrow> bool" where
  "positive_box box = (case box of (t, l, b, r) \<Rightarrow> t < b \<and> l < r)"

definition positive_screen :: "vars \<Rightarrow> bool" where
  "positive_screen s = (0 < screen_width s \<and> 0 < screen_height s)"

definition an_input :: input where
  "an_input =
     \<lparr>key_SPACE = False, key_1 = False, key_2 = False, key_3 = False, key_4 = False,
      key_5 = False, key_6 = False, key_7 = False, key_8 = False, key_9 = False,
      key_0 = False, key_Q = False, key_W = False, key_E = False, key_R = False,
      key_LBUTTON = False, pt_x = 0, pt_y = 0, fElapsedTime = 0\<rparr>"

subsection \<open>Inputs and states of the worked examples\<close>

text \<open>
  A 4000 x 3000 image on a 1920 x 1080 display. \<open>hold d\<close> is a pass with only the
  space bar down and \<open>d\<close> seconds elapsed, \<open>click_Q x y\<close> a pass with Q and the left
  button down and the cursor at \<open>(x, y)\<close>. \<open>shown\<close> is the state after a first pass with
  no key down, \<open>paused\<close> the state after a further pass \<open>hold 1\<close>, \<open>edited\<close> the
  state after a pass \<open>click_Q 100 100\<close> from there (lemmas \<open>session_shown\<close>,
  \<open>shown_paused\<close> and \<open>paused_edited\<close> below).
\<close>

definition session :: vars where
  "session = init 1920 1080 4000 3000"

definition hold :: "real \<Rightarrow> input" where
  "hold d = an_input\<lparr>key_SPACE := True, fElapsedTime := d\<rparr>"

definition click_Q :: "int \<Rightarrow> int \<Rightarrow> input" where
  "click_Q x y = an_input\<lparr>key_Q := True, key_LBUTTON := True, pt_x := x, pt_y := y\<rparr>"

definition shown :: vars where
  "shown =
     \<lparr>screen_width = 1920, screen_height = 1080, image_width = 4000, image_height = 3000,
      start_x1 = 0, start_y1 = 0, start_x2 = 4000, start_y2 = 3000,
      end_x1 = 0, end_y1 = 0, end_x2 = 1920, end_y2 = 1080,
      dx1 = 0, dx2 = - (208 / 3), dy1 = 0, dy2 = - 64,
      left = - (2000 / 3), top' = 0, right = 14000 / 3, bottom = 3000,
      first_loop = False, initialized = False\<rparr>"

definition paused :: vars where
  "paused =
     \<lparr>screen_width = 1920, screen_height = 1080, image_width = 4000, image_height = 3000,
      start_x1 = 0, start_y1 = 375, start_x2 = 4000, start_y2 = 2625,
      end_x1 = 0, end_y1 = 0, end_x2 = 1920, end_y2 = 1080,
      dx1 = 0, dx2 = - (208 / 3), dy1 = - (25 / 2), dy2 = - (103 / 2),
      left = 0, top' = 725 / 2, right = 11792 / 3, bottom = 5147 / 2,
      first_loop = False, initialized = True\<rparr>"

definition edited :: vars where
  "edited =
     \<lparr>screen_width = 1920, screen_height = 1080, image_width = 4000, image_height = 3000,
      start_x1 = - (3500 / 9), start_y1 = 2500 / 9, start_x2 = 4000, start_y2 = 2625,
      end_x1 = 0, end_y1 = 0, end_x2 = 1920, end_y2 = 1080,
      dx1 = 0, dx2 = - (208 / 3), dy1 = - (25 / 2), dy2 = - (103 / 2),
      left = - (2000 / 3), top' = 0, right = 14000 / 3, bottom = 3000,
      first_loop = False, initialized = False\<rparr>"

section \<open>Properties of the fitter\<close>

text \<open>
  C4. For every rectangle with positive extents and positive viewport dimensions the
  source's fitter does what the specification's sentence says: on the branch
  \<open>(Cover and rectAspect > viewportAspect) or (Contain and rectAspect < viewportAspect)\<close>
  only top and bottom move, by \<open>offset = (width / viewportAspect - height) / 2\<close>, and the
  scale is \<open>width / viewportWidth\<close>; otherwise only left and right move, by
  \<open>offset = (height * viewportAspect - width) / 2\<close>, and the scale is
  \<open>height / viewportHeight\<close>.
\<close>

theorem PutScreenOverCoordinates_refines_Fit_spec:
  assumes "l < r" and "t < b" and "0 < vw" and "0 < vh"
  shows "PutScreenOverCoordinates (coords_in_dimensions_of mode) t l b r vw vh
           = Fit_spec mode t l b r vw vh"
  by (cases mode)
     (simp_all add: PutScreenOverCoordinates_def Fit_spec_def coords_in_dimensions_of_def
        Let_def)

theorem PutScreenOverCoordinates_refines_Fit_spec_witness:
  "(0::real) < 4000 \<and> (0::real) < 3000 \<and> (0::real) < 1920 \<and> (0::real) < 1080
   \<and> PutScreenOverCoordinates (coords_in_dimensions_of Cover) 0 0 3000 4000 1920 1080
       = Fit_spec Cover 0 0 3000 4000 1920 1080
   \<and> Fit_spec Cover 0 0 3000 4000 1920 1080
       = \<lparr>fit_scaling = 25 / 9, fit_top = 0, fit_left = - (2000 / 3),
          fit_bottom = 3000, fit_right = 14000 / 3\<rparr>"
  using PutScreenOverCoordinates_refines_Fit_spec [of 0 4000 0 3000 1920 1080 Cover]
  by (simp add: Fit_spec_def Let_def)





section \<open>Division by zero\<close>










section \<open>The loop\<close>

subsection \<open>What each block writes\<close>


lemma pick_idle: "\<not> first_loop s \<Longrightarrow> \<not> corner_key i \<Longrightarrow> pick i s = s"
  by (simp add: pick_def corner_key_def)

lemma pick_entered:
  "first_loop s \<or> corner_key i \<Longrightarrow>
   \<not> initialized (pick i s) \<and> \<not> first_loop (pick i s)
   \<and> current (pick i s) = edges (PutScreenOverCoordinates True 0 0 (image_height s)
        (image_width s) (screen_width s) (screen_height s))"
  by (auto simp add: pick_def corner_key_def current_def edges_def Let_def)

lemma pick_rates: "rates (pick i s) = rates s"
  by (cases "key_Q i"; cases "key_W i"; cases "key_E i"; cases "key_R i")
     (simp_all add: pick_def rates_def Let_def)

lemma pick_boxes:
  "\<not> (key_LBUTTON i \<and> corner_key i) \<Longrightarrow>
   start_box (pick i s) = start_box s \<and> end_box (pick i s) = end_box s"
  by (auto simp add: pick_def start_box_def end_box_def corner_key_def Let_def)


lemma zoom_released: "\<not> key_SPACE i \<Longrightarrow> zoom i s = s"
  by (simp add: zoom_def)

lemma zoom_armed:
  "key_SPACE i \<Longrightarrow> initialized s \<Longrightarrow>
   zoom i s = s\<lparr>left := left s + dx1 s * scaled_time i,
                top' := top' s + dy1 s * scaled_time i,
                right := right s + dx2 s * scaled_time i,
                bottom := bottom s + dy2 s * scaled_time i\<rparr>"
  by (simp add: zoom_def)


lemma zoom_first_loop: "first_loop (zoom i s) = first_loop s"
  by (simp add: zoom_def arm_def Let_def)

lemma zoom_dims:
  "screen_width (zoom i s) = screen_width s \<and> screen_height (zoom i s) = screen_height s
   \<and> image_width (zoom i s) = image_width s \<and> image_height (zoom i s) = image_height s"
  by (simp add: zoom_def arm_def Let_def)

lemma zoom_boxes:
  "start_box (zoom i s)
     = (if key_SPACE i \<and> \<not> initialized s then edges (contain s (start_box s))
        else start_box s)
   \<and> end_box (zoom i s)
     = (if key_SPACE i \<and> \<not> initialized s then edges (contain s (end_box s))
        else end_box s)"
  by (simp add: zoom_def arm_def start_box_def end_box_def edges_def contain_def Let_def)

lemma zoom_rates_disarmed:
  "key_SPACE j \<Longrightarrow> \<not> initialized s \<Longrightarrow>
   rates (zoom j s) =
     ((fit_top (contain s (end_box s)) - fit_top (contain s (start_box s))) / time,
      (fit_left (contain s (end_box s)) - fit_left (contain s (start_box s))) / time,
      (fit_bottom (contain s (end_box s)) - fit_bottom (contain s (start_box s))) / time,
      (fit_right (contain s (end_box s)) - fit_right (contain s (start_box s))) / time)"
  by (simp add: zoom_def arm_def rates_def contain_def start_box_def end_box_def Let_def)

subsection \<open>Passes with no key, and passes with only the space bar\<close>

lemma frame_idle:
  "\<not> key_SPACE i \<Longrightarrow> \<not> corner_key i \<Longrightarrow> \<not> first_loop s \<Longrightarrow> frame i s = s"
  by (simp add: frame_def zoom_released pick_idle)

lemma run_idle:
  "\<forall>i \<in> set is. \<not> key_SPACE i \<and> \<not> corner_key i \<Longrightarrow> \<not> first_loop s \<Longrightarrow> run is s = s"
  by (induction "is") (simp_all add: frame_idle)

lemma frame_zooming:
  "key_SPACE i \<Longrightarrow> \<not> corner_key i \<Longrightarrow> \<not> first_loop s \<Longrightarrow> initialized s \<Longrightarrow>
   frame i s = s\<lparr>left := left s + dx1 s * scaled_time i,
                 top' := top' s + dy1 s * scaled_time i,
                 right := right s + dx2 s * scaled_time i,
                 bottom := bottom s + dy2 s * scaled_time i\<rparr>"
  by (simp add: frame_def zoom_armed pick_idle)




subsection \<open>The worked examples, pass by pass\<close>

lemmas step_defs = an_input_def hold_def click_Q_def frame_def zoom_def pick_def arm_def
  PutScreenOverCoordinates_def Let_def time_def scaled_time_def corner_key_def
  start_box_def end_box_def current_def rates_def edges_def contain_def positive_box_def
  positive_screen_def

lemma session_shown: "frame an_input session = shown"
  by (simp add: session_def init_def shown_def step_defs)

lemma shown_paused: "frame (hold 1) shown = paused"
  by (simp add: shown_def paused_def step_defs)

lemma paused_idle: "frame an_input paused = paused"
  by (simp add: paused_def step_defs)

lemma paused_edited: "frame (click_Q 100 100) paused = edited"
  by (simp add: paused_def edited_def step_defs)

lemma edited_idle: "frame an_input edited = edited"
  by (simp add: edited_def step_defs)

lemma paused_reached: "run [an_input, hold 1] session = paused"
  by (simp add: session_shown shown_paused)

section \<open>Picking coordinates\<close>

text \<open>
  In the theorems on the loop, the hypotheses that the boxes and the dimensions are
  positive are the fitter's precondition: they keep every divisor of the fitter away
  from zero, where the exact model of the arithmetic is the program's.
\<close>

text \<open>
  C10. On every pass on which at least one of Q, W, E, R is down, and on the first pass,
  \<^verbatim>\<open>top\<close>, \<^verbatim>\<open>left\<close>, \<^verbatim>\<open>bottom\<close>, \<^verbatim>\<open>right\<close> are overwritten with the result of the
  fitter called with \<^verbatim>\<open>coords_in_dimensions = true\<close> on the whole image
  \<open>(0, 0, image_height, image_width)\<close>, whatever they were and whether or not the left
  button is down.
\<close>

theorem corner_key_resets_current:
  assumes "first_loop s \<or> corner_key i"
    and "0 < image_width s" and "0 < image_height s" and "positive_screen s"
  shows "current (frame i s)
           = edges (PutScreenOverCoordinates True 0 0 (image_height s) (image_width s)
               (screen_width s) (screen_height s))"
  using assms(1) pick_entered [of "zoom i s" i]
  by (simp add: frame_def zoom_first_loop zoom_dims)

theorem corner_key_resets_current_witness:
  "(first_loop paused \<or> corner_key (an_input\<lparr>key_E := True\<rparr>))
   \<and> \<not> key_LBUTTON (an_input\<lparr>key_E := True\<rparr>)
   \<and> 0 < image_width paused \<and> 0 < image_height paused \<and> positive_screen paused
   \<and> current paused = (725 / 2, 0, 5147 / 2, 11792 / 3)
   \<and> current (frame (an_input\<lparr>key_E := True\<rparr>) paused) = (0, - (2000 / 3), 3000, 14000 / 3)"
  using corner_key_resets_current [of paused "an_input\<lparr>key_E := True\<rparr>"]
  by (simp add: paused_def step_defs)

text \<open>
  C3, as amended. For a 4000 x 3000 image on a 1920 x 1080 viewport the fit of the whole
  image \<open>(0, 0, 4000, 3000)\<close> with \<^verbatim>\<open>coords_in_dimensions = true\<close> has scale
  \<open>3000 / 1080 = 25/9\<close> (about 2.778) and origin \<open>(left, top) = (- 2000/3, 0)\<close> (left
  about -666.67); so a pass with Q and the left button down and the cursor at (100, 100)
  sets \<open>start_y1 = 2500/9\<close> (about 277.78) and \<open>start_x1 = - 3500/9\<close> (about -388.89).
\<close>

theorem set_start_top_left:
  assumes "screen_width s = 1920" and "screen_height s = 1080"
    and "image_width s = 4000" and "image_height s = 3000"
    and "key_Q i" and "key_LBUTTON i" and "pt_x i = 100" and "pt_y i = 100"
  shows "PutScreenOverCoordinates True 0 0 3000 4000 1920 1080
           = \<lparr>fit_scaling = 25 / 9, fit_top = 0, fit_left = - (2000 / 3),
              fit_bottom = 3000, fit_right = 14000 / 3\<rparr>
       \<and> start_y1 (frame i s) = 2500 / 9
       \<and> start_x1 (frame i s) = - (3500 / 9)"
proof -
  have fit: "PutScreenOverCoordinates True 0 0 3000 4000 1920 1080
           = \<lparr>fit_scaling = 25 / 9, fit_top = 0, fit_left = - (2000 / 3),
              fit_bottom = 3000, fit_right = 14000 / 3\<rparr>"
    by (simp add: PutScreenOverCoordinates_def Let_def)
  from assms(1-4)
  have dims: "screen_width (zoom i s) = 1920" "screen_height (zoom i s) = 1080"
      "image_width (zoom i s) = 4000" "image_height (zoom i s) = 3000"
    by (simp_all add: zoom_dims)
  from assms(5-8) have "start_y1 (pick i (zoom i s)) = 2500 / 9
      \<and> start_x1 (pick i (zoom i s)) = - (3500 / 9)"
    by (simp add: pick_def Let_def dims fit)
  with fit show ?thesis by (simp add: frame_def)
qed

theorem set_start_top_left_witness:
  "screen_width session = 1920 \<and> screen_height session = 1080
   \<and> image_width session = 4000 \<and> image_height session = 3000
   \<and> key_Q (click_Q 100 100) \<and> key_LBUTTON (click_Q 100 100)
   \<and> pt_x (click_Q 100 100) = 100 \<and> pt_y (click_Q 100 100) = 100
   \<and> start_y1 (frame (click_Q 100 100) session) = 2500 / 9
   \<and> start_x1 (frame (click_Q 100 100) session) = - (3500 / 9)"
  using set_start_top_left [of session "click_Q 100 100"]
  by (simp add: session_def init_def click_Q_def an_input_def)

text \<open>
  C3 as stated fails: on that session the scale is not 2.083 (it is off by more than
  0.5), the origin's left is not 0, and the click at (100, 100) does not set
  \<open>start_y1\<close> and \<open>start_x1\<close> to 208.3 (they are off by more than 69 and 597).
\<close>

theorem set_start_top_left_not_208:
  "\<not> \<bar>fit_scaling (PutScreenOverCoordinates True 0 0 3000 4000 1920 1080) - 2083 / 1000\<bar>
        < 1 / 2
   \<and> fit_left (PutScreenOverCoordinates True 0 0 3000 4000 1920 1080) \<noteq> 0
   \<and> \<not> \<bar>start_y1 (frame (click_Q 100 100) session) - 2083 / 10\<bar> < 69
   \<and> \<not> \<bar>start_x1 (frame (click_Q 100 100) session) - 2083 / 10\<bar> < 597"
  by (simp add: session_def init_def step_defs)

section \<open>Arming\<close>

text \<open>
  C8. A pass on which a corner key (Q, W, E or R) is down clears \<^verbatim>\<open>initialized\<close>; after
  it, and after any number of passes with neither the space bar nor a corner key, the
  next pass with the space bar down computes the four rates from the start and end boxes
  as that pass left them (each passed through the fitter with
  \<^verbatim>\<open>coords_in_dimensions = false\<close>), divided by \<^verbatim>\<open>time\<close>.
\<close>

theorem edit_rearms:
  assumes "corner_key i" and "s1 = frame i s"
    and "\<forall>k \<in> set is. \<not> key_SPACE k \<and> \<not> corner_key k"
    and "key_SPACE j"
    and "positive_box (start_box s1)" and "positive_box (end_box s1)"
    and "positive_screen s1"
  shows "\<not> initialized s1
       \<and> rates (frame j (run is s1)) =
           ((fit_top (contain s1 (end_box s1)) - fit_top (contain s1 (start_box s1))) / time,
            (fit_left (contain s1 (end_box s1)) - fit_left (contain s1 (start_box s1))) / time,
            (fit_bottom (contain s1 (end_box s1))
               - fit_bottom (contain s1 (start_box s1))) / time,
            (fit_right (contain s1 (end_box s1))
               - fit_right (contain s1 (start_box s1))) / time)"
proof -
  from assms(1,2) have flags: "\<not> initialized s1" "\<not> first_loop s1"
    using pick_entered [of "zoom i s" i] by (simp_all add: frame_def)
  from assms(3) flags(2) have "run is s1 = s1"
    by (rule run_idle)
  with assms(4) flags(1) show ?thesis
    by (simp add: frame_def pick_rates zoom_rates_disarmed)
qed

theorem edit_rearms_witness:
  "corner_key (click_Q 100 100)
   \<and> \<not> key_SPACE an_input \<and> \<not> corner_key an_input \<and> key_SPACE (hold 0)
   \<and> positive_box (start_box edited) \<and> positive_box (end_box edited)
   \<and> positive_screen edited
   \<and> rates paused = (- (25 / 2), 0, - (103 / 2), - (208 / 3))
   \<and> \<not> initialized edited
   \<and> start_box edited = (2500 / 9, - (3500 / 9), 2625, 4000)
   \<and> rates (frame (hold 0) (run [an_input] edited))
       = (- (250 / 27), 2275 / 243, - (103 / 2), - (15973 / 243))"
proof -
  have idle: "run [an_input] edited = edited"
    by (simp add: edited_idle)
  show ?thesis
    using edit_rearms [of "click_Q 100 100" edited paused "[an_input]" "hold 0"]
    unfolding idle
    by (simp add: paused_edited) (simp add: paused_def edited_def step_defs)
qed

text \<open>
  C1, as amended. Releasing the space bar does not clear \<^verbatim>\<open>initialized\<close>: passes with
  neither the space bar nor a corner key down (after the first pass) leave every
  variable as it was, so on the next pass with the space bar down the rates are not
  recomputed and the animation goes on from where it stopped, each edge advancing by
  its rate times the elapsed time. Once set, \<^verbatim>\<open>initialized\<close> stays set on every pass
  without a corner key down, whether the space bar is down or not.
\<close>

theorem release_keeps_armed:
  assumes "initialized s" and "\<not> first_loop s"
    and "\<forall>i \<in> set is. \<not> key_SPACE i \<and> \<not> corner_key i"
    and "key_SPACE j" and "\<not> corner_key j"
  shows "run is s = s
       \<and> initialized (run is s)
       \<and> rates (frame j (run is s)) = rates s
       \<and> current (frame j (run is s))
           = (top' s + dy1 s * scaled_time j, left s + dx1 s * scaled_time j,
              bottom s + dy2 s * scaled_time j, right s + dx2 s * scaled_time j)
       \<and> (\<not> corner_key k \<longrightarrow> initialized (frame k s))"
proof -
  from assms(2,3) have same: "run is s = s"
    by (rule run_idle [rotated])
  have stays: "initialized (frame k s)" if "\<not> corner_key k"
    using that assms(1,2) by (cases "key_SPACE k") (simp_all add: frame_zooming frame_idle)
  from assms(1,2,4,5) stays show ?thesis
    unfolding same by (simp add: frame_zooming rates_def current_def)
qed

theorem release_keeps_armed_witness:
  "initialized paused \<and> \<not> first_loop paused
   \<and> \<not> key_SPACE an_input \<and> \<not> corner_key an_input
   \<and> key_SPACE (hold 2) \<and> \<not> corner_key (hold 2)
   \<and> current paused = (725 / 2, 0, 5147 / 2, 11792 / 3)
   \<and> rates paused = (- (25 / 2), 0, - (103 / 2), - (208 / 3))
   \<and> run [an_input] paused = paused
   \<and> current (frame (hold 2) (run [an_input] paused)) = (675 / 2, 0, 4941 / 2, 3792)
   \<and> initialized (frame (hold 2) paused)"
  using release_keeps_armed [of paused "[an_input]" "hold 2" "hold 2"]
  by (simp add: paused_def step_defs)

text \<open>
  C1 as stated fails. On the 4000 x 3000 session: a first pass with no key, a pass with
  the space bar held for one second, a pass with the space bar released. After the
  release \<^verbatim>\<open>initialized\<close> is still true, and a further pass with the space bar down
  (and no time elapsed) leaves the current rectangle at the paused position
  \<open>(725/2, 0, 5147/2, 11792/3)\<close>, not at the start box \<open>(375, 0, 2625, 4000)\<close>.
\<close>

theorem release_does_not_disarm:
  "key_SPACE (hold 1) \<and> \<not> key_SPACE an_input \<and> key_SPACE (hold 0)
   \<and> initialized (run [an_input, hold 1, an_input] session)
   \<and> start_box (run [an_input, hold 1, an_input, hold 0] session) = (375, 0, 2625, 4000)
   \<and> current (run [an_input, hold 1, an_input, hold 0] session)
       = (725 / 2, 0, 5147 / 2, 11792 / 3)"
proof -
  have released: "run [an_input, hold 1, an_input] session = paused"
    by (simp add: session_shown shown_paused paused_idle)
  have pressed: "run [an_input, hold 1, an_input, hold 0] session = frame (hold 0) paused"
    by (simp add: session_shown shown_paused paused_idle)
  have "key_SPACE (hold 1) \<and> \<not> key_SPACE an_input \<and> key_SPACE (hold 0)
      \<and> initialized paused
      \<and> start_box (frame (hold 0) paused) = (375, 0, 2625, 4000)
      \<and> current (frame (hold 0) paused) = (725 / 2, 0, 5147 / 2, 11792 / 3)"
    by (simp add: paused_def step_defs)
  then show ?thesis
    unfolding released pressed .
qed

text \<open>
  C2, as amended. Arming runs the fitter with \<^verbatim>\<open>coords_in_dimensions = false\<close> on the
  stored start and end boxes themselves: on a pass with the space bar down and
  \<^verbatim>\<open>initialized\<close> false, the stored start box and end box become their fitted values.
  On any other pass they stay as they are, unless a corner key and the left button are
  both down (which this theorem leaves open).
\<close>

theorem arming_fits_in_place:
  assumes "\<not> (key_LBUTTON i \<and> corner_key i)"
    and "positive_box (start_box s)" and "positive_box (end_box s)" and "positive_screen s"
  shows "start_box (frame i s)
           = (if key_SPACE i \<and> \<not> initialized s then edges (contain s (start_box s))
              else start_box s)
       \<and> end_box (frame i s)
           = (if key_SPACE i \<and> \<not> initialized s then edges (contain s (end_box s))
              else end_box s)"
  using pick_boxes [OF assms(1), of "zoom i s"] zoom_boxes [of i s]
  by (simp add: frame_def)

theorem arming_fits_in_place_witness:
  "\<not> (key_LBUTTON (hold 1) \<and> corner_key (hold 1))
   \<and> positive_box (start_box shown) \<and> positive_box (end_box shown) \<and> positive_screen shown
   \<and> key_SPACE (hold 1) \<and> \<not> initialized shown
   \<and> start_box (frame (hold 1) shown) = (375, 0, 2625, 4000)
   \<and> end_box (frame (hold 1) shown) = (0, 0, 1080, 1920)
   \<and> start_box (frame (hold 1) paused) = start_box paused"
  using arming_fits_in_place [of "hold 1" shown] arming_fits_in_place [of "hold 1" paused]
  by (simp add: shown_def paused_def step_defs)

text \<open>
  C2 as stated fails. On the 4000 x 3000 session, after a first pass with no key the
  stored start box is \<open>(0, 0, 3000, 4000)\<close> (top, left, bottom, right); the pass on which
  the space bar goes down changes it to \<open>(375, 0, 2625, 4000)\<close>.
\<close>

theorem arming_changes_start_box:
  "\<not> key_SPACE an_input \<and> key_SPACE (hold 1)
   \<and> start_box (run [an_input] session) = (0, 0, 3000, 4000)
   \<and> start_box (run [an_input, hold 1] session) = (375, 0, 2625, 4000)"
  by (simp add: session_shown shown_paused)
     (simp add: shown_def paused_def step_defs)

section \<open>Reaching the end box\<close>



end
